theory Spec2Isabelle
  imports Complex_Main "HOL-Library.Word"
begin

section \<open>JavaScript strings and truthiness\<close>

text \<open>
  A JavaScript string is a sequence of UTF-16 code units. ASCII literals of the source are
  written with \<open>js\<close>; the one non-ASCII literal (the camera emoji U+1F4F7) is written as its
  surrogate pair.
\<close>

type_synonym code_unit = "16 word"
type_synonym jsstring = "code_unit list"

definition js :: "string \<Rightarrow> jsstring" where
  "js s = map of_char s"

text \<open>
  An optional string (\<open>string | undefined\<close>, \<open>string | null\<close>) is an option; \<open>null\<close> and
  \<open>undefined\<close> are both \<open>None\<close>. The empty string and \<open>None\<close> are the falsy values.
\<close>

fun truthy :: "jsstring option \<Rightarrow> bool" where
  "truthy None = False"
| "truthy (Some s) = (s \<noteq> [])"

text \<open>\<open>a || b\<close> with an optional left operand and a string right operand.\<close>

fun or_else :: "jsstring option \<Rightarrow> jsstring \<Rightarrow> jsstring" where
  "or_else None d = d"
| "or_else (Some s) d = (if s \<noteq> [] then s else d)"

text \<open>\<open>a || b\<close> with both operands optional.\<close>

definition or_opt :: "jsstring option \<Rightarrow> jsstring option \<Rightarrow> jsstring option" where
  "or_opt a b = (if truthy a then a else b)"

text \<open>\<open>a || undefined\<close>: a falsy value becomes \<open>undefined\<close>.\<close>

definition or_undefined :: "jsstring option \<Rightarrow> jsstring option" where
  "or_undefined a = (if truthy a then a else None)"

text \<open>
  \<open>String.prototype.trim\<close> removes leading and trailing WhiteSpace and LineTerminator
  code units (ECMAScript: TAB, LF, VT, FF, CR, SP, NBSP, the Zs category, LS, PS, BOM).
\<close>

definition is_space :: "code_unit \<Rightarrow> bool" where
  "is_space c \<longleftrightarrow>
     c \<in> {0x0009, 0x000A, 0x000B, 0x000C, 0x000D, 0x0020, 0x00A0, 0x1680,
          0x2000, 0x2001, 0x2002, 0x2003, 0x2004, 0x2005, 0x2006, 0x2007,
          0x2008, 0x2009, 0x200A, 0x2028, 0x2029, 0x202F, 0x205F, 0x3000, 0xFEFF}"

definition trim :: "jsstring \<Rightarrow> jsstring" where
  "trim s = rev (dropWhile is_space (rev (dropWhile is_space s)))"

text \<open>\<open>s.split(sep)\<close> for a one-unit separator: never empty, \<open>"".split(sep)\<close> is \<open>[""]\<close>.\<close>

fun split :: "code_unit \<Rightarrow> jsstring \<Rightarrow> jsstring list" where
  "split sep [] = [] # []"
| "split sep (c # cs) =
     (if c = sep then [] # split sep cs
      else (case split sep cs of
              [] \<Rightarrow> [c] # []
            | w # ws \<Rightarrow> (c # w) # ws))"

text \<open>Array indexing \<open>xs[i]\<close>: \<open>undefined\<close> out of range.\<close>

fun index :: "'a list \<Rightarrow> nat \<Rightarrow> 'a option" where
  "index [] i = None"
| "index (x # xs) 0 = Some x"
| "index (x # xs) (Suc i) = index xs i"

text \<open>
  \<open>Number.prototype.toString\<close> on a non-negative integer: its decimal digits. (Clock
  readings are integers far below \<open>10^21\<close>, where JavaScript switches to exponent notation.)
\<close>

fun toString :: "nat \<Rightarrow> jsstring" where
  "toString n =
     (if n < 10 then [of_nat (48 + n)]
      else toString (n div 10) @ [of_nat (48 + n mod 10)])"

declare toString.simps [simp del]

section \<open>Data model (types.ts)\<close>

datatype Role = User | Model

record Message =
  id_msg :: jsstring
  role :: Role
  text_msg :: jsstring
  image_msg :: "jsstring option"
  timestamp :: nat

record ChatState =
  messages :: "Message list"
  isLoading :: bool
  error :: "jsstring option"

datatype SkillLevel = BEGINNER | INTERMEDIATE | ADVANCED

text \<open>The string value of each enum member.\<close>

fun skill_string :: "SkillLevel \<Rightarrow> jsstring" where
  "skill_string BEGINNER = js ''Beginner''"
| "skill_string INTERMEDIATE = js ''Intermediate''"
| "skill_string ADVANCED = js ''Advanced''"

section \<open>Insight client (services/geminiService.ts)\<close>

text \<open>The outbound request, as passed to \<open>ai.models.generateContent\<close>.\<close>

datatype Part = InlineData jsstring jsstring | Text jsstring

record Content =
  content_role :: Role
  parts :: "Part list"

record Request =
  model :: jsstring
  contents :: "Content list"
  systemInstruction :: jsstring
  temperature :: rat
  topP :: rat

text \<open>
  The remote service is outside the program: it either answers, with an optional text, or
  throws, with an optional message. (A throw of the client library before the \<open>try\<close>
  reaches the store with its own message, where the same fallback applies.)
\<close>

datatype Remote = Response "jsstring option" | Thrown "jsstring option"

definition MODEL_NAME :: jsstring where
  "MODEL_NAME = js ''gemini-3-flash-preview''"

definition lines :: "jsstring list \<Rightarrow> jsstring" where
  "lines ls = concat (map (\<lambda>l. l @ [0x000A]) ls)"

definition system_instruction :: "SkillLevel \<Rightarrow> jsstring" where
  "system_instruction skillLevel = lines
    [js '''',
     js ''You are Sight2Sense, an expert electronics and embedded-systems mentor. '',
     js ''Your goal is to help users troubleshoot, analyze, and design electronic systems, circuits, PCBs, and General Purpose Control Systems (GPCS).'',
     js '''',
     js ''CORE PERSONALITY & MENTORSHIP:'',
     js ''- Use beginner-friendly yet technically accurate language.'',
     js ''- Mentor the user as if they are in a lab.'',
     js ''- Explain why each step matters, not just what to do.'',
     js ''- Encourage safe practices and logical reasoning.'',
     js ''- Adapt depth based on user skill level: '' @ skill_string skillLevel @ js ''.'',
     js '''',
     js ''IF THE USER PROVIDES AN IMAGE:'',
     js ''- Analyze visible components, layout, and connections.'',
     js ''- Identify potential issues (short circuits, bad solder joints, polarity risks).'',
     js ''- Suggest safe diagnostic steps based on visual evidence.'',
     js ''- Mandatory Sections:'',
     js ''  ### Safety Check'',
     js ''  ### Component Identification'',
     js '''',
     js ''IF THE USER PROVIDES TEXT ONLY:'',
     js ''- Treat it as a general troubleshooting or design question.'',
     js ''- Guide the user through logical diagnostic steps.'',
     js ''- Explain expected readings and probing techniques.'',
     js '''',
     js ''SPECIFIC SCENARIOS TO HANDLE WELL:'',
     js ''- No power issues'',
     js ''- GPCS architecture explanation'',
     js ''- Input protection identification'',
     js '''',
     js ''MOBILE OPTIMIZATION:'',
     js ''- Short paragraphs'',
     js ''- Bullet points'',
     js ''- Clear summaries'',
     js '''',
     js ''SAFETY FIRST:'',
     js ''- Warn about high voltage and battery risks.'',
     js ''- Encourage datasheet verification.'']"

text \<open>\<open>x.split(",")[1] || x\<close>: the payload of a data URL, or the string itself.\<close>

definition inline_data :: "jsstring \<Rightarrow> jsstring" where
  "inline_data x = or_else (index (split 0x002C x) 1) x"

text \<open>One history turn re-expressed as request content: its image (if any), then its text.\<close>

definition history_content :: "Message \<Rightarrow> Content" where
  "history_content msg =
     \<lparr>content_role = (if role msg = User then User else Model),
      parts = (case image_msg msg of
                 None \<Rightarrow> []
               | Some i \<Rightarrow> if i \<noteq> [] then [InlineData (js ''image/jpeg'') (inline_data i)] else [])
              @ [Text (text_msg msg)]\<rparr>"

definition currentParts :: "jsstring \<Rightarrow> jsstring option \<Rightarrow> Part list" where
  "currentParts prompt currentImage =
     (case currentImage of
        None \<Rightarrow> []
      | Some i \<Rightarrow> if i \<noteq> [] then [InlineData (js ''image/jpeg'') (inline_data i)] else [])
     @ [Text prompt]"

definition build_request :: "jsstring \<Rightarrow> Message list \<Rightarrow> SkillLevel \<Rightarrow> jsstring option \<Rightarrow> Request" where
  "build_request prompt history skillLevel currentImage =
     \<lparr>model = MODEL_NAME,
      contents = map history_content history
                 @ [\<lparr>content_role = User, parts = currentParts prompt currentImage\<rparr>],
      systemInstruction = system_instruction skillLevel,
      temperature = 4 / 10,
      topP = 9 / 10\<rparr>"

text \<open>
  \<open>generateElectronicsInsight\<close>. The credential \<open>apiKey\<close> and the remote service are
  parameters. The result is the rejection message (\<open>Inl\<close>) or the generated text (\<open>Inr\<close>),
  together with the list of requests that went out on the network.
\<close>

definition generateElectronicsInsight ::
  "jsstring option \<Rightarrow> (Request \<Rightarrow> Remote) \<Rightarrow>
   jsstring \<Rightarrow> Message list \<Rightarrow> SkillLevel \<Rightarrow> jsstring option \<Rightarrow>
   (jsstring + jsstring) \<times> Request list" where
  "generateElectronicsInsight apiKey remote prompt history skillLevel currentImage =
     (if \<not> truthy apiKey then (Inl (js ''VITE_GEMINI_API_KEY is missing''), [])
      else
        let req = build_request prompt history skillLevel currentImage in
        (case remote req of
           Response t \<Rightarrow> (Inr (or_else t (js ''No response generated.'')), [req])
         | Thrown m \<Rightarrow> (Inl (or_else m (js ''Engine failure.'')), [req])))"

section \<open>Conversation store (App.tsx)\<close>

text \<open>The component state of \<open>App\<close> that the handlers read and write.\<close>

record App =
  chatState :: ChatState
  inputText :: jsstring
  selectedImage :: "jsstring option"
  skillLevel :: SkillLevel

definition initial :: App where
  "initial =
     \<lparr>chatState = \<lparr>messages = [], isLoading = False, error = None\<rparr>,
      inputText = [],
      selectedImage = None,
      skillLevel = INTERMEDIATE\<rparr>"

text \<open>The arguments of one call of \<open>generateElectronicsInsight\<close>.\<close>

record Call =
  call_prompt :: jsstring
  call_history :: "Message list"
  call_skillLevel :: SkillLevel
  call_image :: "jsstring option"

definition PLACEHOLDER :: jsstring where
  "PLACEHOLDER = js ''Analyze this image.''"

definition DISPLAY_TEXT :: jsstring where
  "DISPLAY_TEXT = [0xD83D, 0xDCF7] @ js '' Image uploaded. Automated analysis in progress...''"

definition UPLOAD_PROMPT :: jsstring where
  "UPLOAD_PROMPT =
     js ''Initiate full Safety Check and Component Identification. Be concise for mobile.''"

text \<open>
  The locals of \<open>handleSendMessage\<close>. They are computed from the state of the render
  that created the handler (\<open>inputText\<close>, \<open>selectedImage\<close>, \<open>chatState\<close> are constants of
  that render). \<open>now\<close> is the reading of \<open>Date.now()\<close>, \<open>date\<close> the one of \<open>new Date()\<close>.
\<close>

definition promptToUse :: "jsstring option \<Rightarrow> App \<Rightarrow> jsstring" where
  "promptToUse customPrompt app = or_else customPrompt (inputText app)"

definition imageToUse :: "jsstring option \<Rightarrow> App \<Rightarrow> jsstring option" where
  "imageToUse customImage app = or_opt customImage (selectedImage app)"

definition userMessage :: "nat \<Rightarrow> nat \<Rightarrow> jsstring option \<Rightarrow> jsstring option \<Rightarrow> App \<Rightarrow> Message" where
  "userMessage now date customPrompt customImage app =
     \<lparr>id_msg = toString now,
      role = User,
      text_msg = or_else (Some (promptToUse customPrompt app)) PLACEHOLDER,
      image_msg = (if truthy customImage then or_undefined (imageToUse customImage app) else None),
      timestamp = date\<rparr>"

definition displayMessage :: "nat \<Rightarrow> nat \<Rightarrow> jsstring option \<Rightarrow> jsstring option \<Rightarrow> App \<Rightarrow> Message" where
  "displayMessage now date customPrompt customImage app =
     (if truthy customPrompt
      then (userMessage now date customPrompt customImage app)\<lparr>text_msg := DISPLAY_TEXT\<rparr>
      else userMessage now date customPrompt customImage app)"

text \<open>
  \<open>handleSendMessage\<close> up to the \<open>await\<close>: the guard, the provisional user turn, and the
  call that is issued (\<open>None\<close> when the guard returns). Two states take part. \<open>render\<close> is
  the state of the render that created the handler: the guard, the locals and the
  arguments of the call (\<open>chatState.messages\<close>, \<open>skillLevel\<close>) are read from it. \<open>app\<close> is
  the latest state: \<open>setChatState(prev => ...)\<close> and \<open>setInputText\<close> update it. For a
  handler of the current render the two are the same state.
\<close>

definition handleSendMessage_submit ::
  "nat \<Rightarrow> nat \<Rightarrow> jsstring option \<Rightarrow> jsstring option \<Rightarrow> App \<Rightarrow> App \<Rightarrow> App \<times> Call option" where
  "handleSendMessage_submit now date customPrompt customImage render app =
     (if (trim (promptToUse customPrompt render) = [] \<and> \<not> truthy (imageToUse customImage render))
         \<or> isLoading (chatState render)
      then (app, None)
      else
        (app\<lparr>chatState := (chatState app)
                \<lparr>messages := messages (chatState app)
                               @ [displayMessage now date customPrompt customImage render],
                 isLoading := True,
                 error := None\<rparr>,
             inputText := []\<rparr>,
         Some \<lparr>call_prompt = text_msg (userMessage now date customPrompt customImage render),
               call_history = messages (chatState render),
               call_skillLevel = skillLevel render,
               call_image = or_undefined (imageToUse customImage render)\<rparr>))"

text \<open>
  \<open>handleSendMessage\<close> after the \<open>await\<close>: the functional update of the \<open>try\<close> branch
  (\<open>Inr\<close>, the generated text) or of the \<open>catch\<close> branch (\<open>Inl\<close>, the message of the error).
\<close>

definition handleSendMessage_settle :: "nat \<Rightarrow> nat \<Rightarrow> jsstring + jsstring \<Rightarrow> App \<Rightarrow> App" where
  "handleSendMessage_settle now date result app =
     (case result of
        Inr aiResponse \<Rightarrow>
          app\<lparr>chatState := (chatState app)
                \<lparr>messages := messages (chatState app)
                               @ [\<lparr>id_msg = toString (now + 1),
                                   role = Model,
                                   text_msg = aiResponse,
                                   image_msg = None,
                                   timestamp = date\<rparr>],
                 isLoading := False\<rparr>\<rparr>
      | Inl message \<Rightarrow>
          app\<lparr>chatState := (chatState app)
                \<lparr>isLoading := False,
                 error := Some (or_else (Some message) (js ''Engine failure.''))\<rparr>\<rparr>)"

text \<open>
  One awaited round trip of \<open>handleSendMessage\<close>, with nothing else happening in between:
  the final state and the requests that went out. \<open>now1\<close>, \<open>date1\<close> are the clock readings
  of the user turn, \<open>now2\<close>, \<open>date2\<close> those of the model turn.
\<close>

definition handleSendMessage ::
  "jsstring option \<Rightarrow> (Request \<Rightarrow> Remote) \<Rightarrow> nat \<Rightarrow> nat \<Rightarrow> nat \<Rightarrow> nat \<Rightarrow>
   jsstring option \<Rightarrow> jsstring option \<Rightarrow> App \<Rightarrow> App \<Rightarrow> App \<times> Request list" where
  "handleSendMessage apiKey remote now1 date1 now2 date2 customPrompt customImage render app =
     (case handleSendMessage_submit now1 date1 customPrompt customImage render app of
        (app1, None) \<Rightarrow> (app1, [])
      | (app1, Some c) \<Rightarrow>
          (case generateElectronicsInsight apiKey remote
                  (call_prompt c) (call_history c) (call_skillLevel c) (call_image c) of
             (result, sent) \<Rightarrow> (handleSendMessage_settle now2 date2 result app1, sent)))"

text \<open>
  \<open>handleImageUpload\<close>, from the moment the reader has loaded the chosen file
  (\<open>None\<close>: no file chosen). \<open>reader.onloadend\<close> was created in the render in which the
  file was chosen, and calls the \<open>handleSendMessage\<close> of that render: \<open>render\<close> is its
  state, \<open>app\<close> the latest state, in which \<open>setSelectedImage\<close> stages the image.
\<close>

definition handleImageUpload_submit ::
  "nat \<Rightarrow> nat \<Rightarrow> jsstring option \<Rightarrow> App \<Rightarrow> App \<Rightarrow> App \<times> Call option" where
  "handleImageUpload_submit now date file render app =
     (case file of
        None \<Rightarrow> (app, None)
      | Some base64 \<Rightarrow>
          handleSendMessage_submit now date (Some UPLOAD_PROMPT) (Some base64) render
            (app\<lparr>selectedImage := Some base64\<rparr>))"

definition resetChat :: "App \<Rightarrow> App" where
  "resetChat app =
     app\<lparr>chatState := \<lparr>messages = [], isLoading = False, error = None\<rparr>,
         selectedImage := None\<rparr>"

subsection \<open>Sessions\<close>

text \<open>
  A session is a sequence of user actions and settled calls. A call that was issued stays
  outstanding until it settles; \<open>Settle k\<close> settles the \<open>k\<close>-th outstanding call.

  \<open>Send\<close> is a submit from the input area or a starter question: its handler is the one of
  the current render. \<open>Pick\<close> is the choice of a file: the reader starts, and keeps the
  handler of the render in which the file was chosen. \<open>Upload\<close> is the end of a read: it
  runs the handler of the oldest choice still being read, or, when there is none, of the
  current render (the file was chosen and read with nothing in between).
\<close>

datatype Event =
    Send nat nat "jsstring option" "jsstring option"
  | Pick
  | Upload nat nat jsstring
  | Settle nat nat nat
  | Reset
  | Type jsstring
  | Skill SkillLevel

record World =
  state :: App
  outstanding :: "Call list"
  picked :: "App list"

fun issue :: "World \<Rightarrow> App \<times> Call option \<Rightarrow> World" where
  "issue w (a, None) = w\<lparr>state := a\<rparr>"
| "issue w (a, Some c) = w\<lparr>state := a, outstanding := outstanding w @ [c]\<rparr>"

fun step :: "jsstring option \<Rightarrow> (Request \<Rightarrow> Remote) \<Rightarrow> World \<Rightarrow> Event \<Rightarrow> World" where
  "step apiKey remote w (Send now date customPrompt customImage) =
     issue w (handleSendMessage_submit now date customPrompt customImage (state w) (state w))"
| "step apiKey remote w Pick = w\<lparr>picked := picked w @ [state w]\<rparr>"
| "step apiKey remote w (Upload now date base64) =
     (case picked w of
        [] \<Rightarrow> issue w (handleImageUpload_submit now date (Some base64) (state w) (state w))
      | render # rest \<Rightarrow>
          issue (w\<lparr>picked := rest\<rparr>)
            (handleImageUpload_submit now date (Some base64) render (state w)))"
| "step apiKey remote w (Settle now date k) =
     (case index (outstanding w) k of
        None \<Rightarrow> w
      | Some c \<Rightarrow>
          w\<lparr>state := handleSendMessage_settle now date
                   (fst (generateElectronicsInsight apiKey remote
                           (call_prompt c) (call_history c) (call_skillLevel c) (call_image c)))
                   (state w),
            outstanding := take k (outstanding w) @ drop (Suc k) (outstanding w)\<rparr>)"
| "step apiKey remote w Reset = w\<lparr>state := resetChat (state w)\<rparr>"
| "step apiKey remote w (Type t) = w\<lparr>state := (state w)\<lparr>inputText := t\<rparr>\<rparr>"
| "step apiKey remote w (Skill l) = w\<lparr>state := (state w)\<lparr>skillLevel := l\<rparr>\<rparr>"

definition start :: World where
  "start = \<lparr>state = initial, outstanding = [], picked = []\<rparr>"

definition run :: "jsstring option \<Rightarrow> (Request \<Rightarrow> Remote) \<Rightarrow> Event list \<Rightarrow> World" where
  "run apiKey remote evs = foldl (step apiKey remote) start evs"

subsection \<open>Identifiers as numbers\<close>

text \<open>The number that a string of decimal digits denotes.\<close>

definition fromDigits :: "jsstring \<Rightarrow> nat" where
  "fromDigits s = foldl (\<lambda>acc d. 10 * acc + (unat d - 48)) 0 s"

text \<open>The reading of \<open>Date.now()\<close> that an event brings with it, if any.\<close>

fun reading :: "Event \<Rightarrow> nat list" where
  "reading (Send now date customPrompt customImage) = [now]"
| "reading Pick = []"
| "reading (Upload now date base64) = [now]"
| "reading (Settle now date k) = [now]"
| "reading Reset = []"
| "reading (Type t) = []"
| "reading (Skill l) = []"

text \<open>The identifiers of the turns increase strictly and stay below \<open>b\<close>.\<close>

definition ids_below :: "nat \<Rightarrow> Message list \<Rightarrow> bool" where
  "ids_below b ms \<longleftrightarrow>
     sorted_wrt (<) (map (fromDigits \<circ> id_msg) ms)
     \<and> list_all (\<lambda>m. fromDigits (id_msg m) < b) ms"

subsection \<open>Example states\<close>

text \<open>A state whose input holds only blanks, with no staged image.\<close>

definition blank_app :: App where
  "blank_app = initial\<lparr>inputText := js ''  ''\<rparr>"

text \<open>A state after one completed round trip, with a new question typed.\<close>

definition talk_app :: App where
  "talk_app =
     \<lparr>chatState =
        \<lparr>messages = [\<lparr>id_msg = js ''1000'', role = User, text_msg = js ''hi'',
                      image_msg = None, timestamp = 1000\<rparr>,
                     \<lparr>id_msg = js ''1851'', role = Model, text_msg = js ''Check fuse F1.'',
                      image_msg = None, timestamp = 1850\<rparr>],
         isLoading = False, error = None\<rparr>,
      inputText = js ''more'',
      selectedImage = None,
      skillLevel = INTERMEDIATE\<rparr>"

text \<open>A first question is pending, and the next one is typed already.\<close>

definition busy_app :: App where
  "busy_app =
     \<lparr>chatState =
        \<lparr>messages = [\<lparr>id_msg = js ''1000'', role = User, text_msg = js ''hi'',
                      image_msg = None, timestamp = 1000\<rparr>],
         isLoading = True, error = None\<rparr>,
      inputText = js ''more'',
      selectedImage = None,
      skillLevel = INTERMEDIATE\<rparr>"

text \<open>The same conversation with an image staged and nothing typed.\<close>

definition staged_app :: App where
  "staged_app =
     talk_app\<lparr>inputText := [], selectedImage := Some (js ''data:image/png;base64,AAAA'')\<rparr>"

subsection \<open>Example sessions\<close>

text \<open>The credential and the service of the examples.\<close>

definition a_key :: "jsstring option" where
  "a_key = Some (js ''k'')"

definition a_service :: "Request \<Rightarrow> Remote" where
  "a_service r = Response (Some (js ''Check fuse F1.''))"


text \<open>A file is chosen; before it is read, a question is typed and sent.\<close>

definition picked_session :: "Event list" where
  "picked_session = [Pick, Type (js ''x''), Send 1000 1000 None None]"

section \<open>Properties\<close>

subsection \<open>Literals\<close>

lemma js_Nil [simp]: "js [] = []"
  by (simp add: js_def)

lemma trim_UPLOAD_PROMPT: "trim UPLOAD_PROMPT \<noteq> []"
  by (simp add: UPLOAD_PROMPT_def trim_def is_space_def js_def)

lemma UPLOAD_PROMPT_not_Nil: "UPLOAD_PROMPT \<noteq> []"
  by (simp add: UPLOAD_PROMPT_def js_def)

lemma DISPLAY_TEXT_not_UPLOAD_PROMPT: "DISPLAY_TEXT \<noteq> UPLOAD_PROMPT"
  by (simp add: DISPLAY_TEXT_def UPLOAD_PROMPT_def js_def)

lemma or_else_not_Nil: "d \<noteq> [] \<Longrightarrow> or_else m d \<noteq> []"
  by (cases m) auto

subsection \<open>Reset\<close>

text \<open>
  Claim C7: from every state, \<open>resetChat\<close> yields an empty turn sequence, no pending
  request, no error and no staged image. \<open>resetChat\<close> is a total function: it always
  succeeds.
\<close>

theorem resetChat_fresh:
  "messages (chatState (resetChat a)) = []
   \<and> isLoading (chatState (resetChat a)) = False
   \<and> error (chatState (resetChat a)) = None
   \<and> selectedImage (resetChat a) = None"
  by (simp add: resetChat_def)

subsection \<open>The insight client\<close>

text \<open>
  Claim C4: when the credential is absent (or empty), the client rejects at once with a
  message naming the missing variable, and no request goes out.
\<close>

theorem missing_key_fails_fast:
  assumes "\<not> truthy apiKey"
  shows "generateElectronicsInsight apiKey remote prompt history level currentImage
           = (Inl (js ''VITE_GEMINI_API_KEY is missing''), [])"
  using assms by (simp add: generateElectronicsInsight_def)

theorem missing_key_fails_fast_witness:
  "\<not> truthy None
   \<and> generateElectronicsInsight None (\<lambda>r. Response (Some (js ''unused''))) (js ''hi'') [] BEGINNER None
       = (Inl (js ''VITE_GEMINI_API_KEY is missing''), [])
   \<and> \<not> truthy (Some [])
   \<and> generateElectronicsInsight (Some []) (\<lambda>r. Response (Some (js ''unused''))) (js ''hi'') [] BEGINNER None
       = (Inl (js ''VITE_GEMINI_API_KEY is missing''), [])"
  using missing_key_fails_fast [of None "\<lambda>r. Response (Some (js ''unused''))" "js ''hi''" "[]" BEGINNER None]
        missing_key_fails_fast [of "Some []" "\<lambda>r. Response (Some (js ''unused''))" "js ''hi''" "[]" BEGINNER None]
  by simp

text \<open>
  Claim C8: with a credential, exactly one request goes out; its contents are the history
  followed by the new turn, and the new turn lists the image part before the text part
  when an image is carried, and the text part alone otherwise.
\<close>

theorem new_turn_image_then_text:
  assumes "truthy apiKey"
  shows "\<exists>req. snd (generateElectronicsInsight apiKey remote prompt history level currentImage) = [req]
           \<and> contents req = map history_content history
                @ [\<lparr>content_role = User,
                    parts = (case currentImage of
                               None \<Rightarrow> [Text prompt]
                             | Some i \<Rightarrow>
                                 if i = [] then [Text prompt]
                                 else [InlineData (js ''image/jpeg'') (inline_data i), Text prompt])\<rparr>]"
  using assms
  by (cases "remote (build_request prompt history level currentImage)")
     (simp_all add: generateElectronicsInsight_def build_request_def currentParts_def Let_def
        split: option.splits)

theorem new_turn_image_then_text_witness:
  "truthy (Some (js ''k''))
   \<and> (\<exists>req. snd (generateElectronicsInsight (Some (js ''k'')) (\<lambda>r. Response None) (js ''hi'') [] BEGINNER
                    (Some (js ''data:image/png;base64,AAAA''))) = [req]
          \<and> contents req = [\<lparr>content_role = User,
                              parts = [InlineData (js ''image/jpeg'') (js ''AAAA''), Text (js ''hi'')]\<rparr>])
   \<and> (\<exists>req. snd (generateElectronicsInsight (Some (js ''k'')) (\<lambda>r. Response None) (js ''hi'') [] BEGINNER
                    None) = [req]
          \<and> contents req = [\<lparr>content_role = User, parts = [Text (js ''hi'')]\<rparr>])"
  using new_turn_image_then_text [of "Some (js ''k'')" "\<lambda>r. Response None" "js ''hi''" "[]" BEGINNER
          "Some (js ''data:image/png;base64,AAAA'')"]
        new_turn_image_then_text [of "Some (js ''k'')" "\<lambda>r. Response None" "js ''hi''" "[]" BEGINNER None]
  by (simp add: js_def inline_data_def)

subsection \<open>Evaluating sessions\<close>

lemmas eval_defs =
  run_def start_def initial_def handleSendMessage_submit_def handleSendMessage_settle_def
  handleImageUpload_submit_def resetChat_def
  generateElectronicsInsight_def displayMessage_def userMessage_def promptToUse_def
  imageToUse_def or_opt_def or_undefined_def PLACEHOLDER_def trim_def is_space_def
  js_def toString.simps Let_def a_key_def a_service_def

text \<open>The example states are states of sessions.\<close>

lemma blank_app_reachable:
  "state (run a_key a_service [Type (js ''  '')]) = blank_app"
  by (simp add: blank_app_def eval_defs)

lemma busy_app_reachable:
  "state (run a_key a_service [Type (js ''hi''), Send 1000 1000 None None, Type (js ''more'')])
     = busy_app"
  by (simp add: busy_app_def eval_defs)

lemma talk_app_reachable:
  "state (run a_key a_service
            [Type (js ''hi''), Send 1000 1000 None None, Settle 1850 1850 0, Type (js ''more'')])
     = talk_app"
  by (simp add: talk_app_def eval_defs)

lemma staged_app_reachable:
  "state (run a_key a_service
            [Type (js ''hi''), Send 1000 1000 None None,
             Upload 1200 1200 (js ''data:image/png;base64,AAAA''), Settle 1850 1850 0])
     = staged_app"
  by (simp add: staged_app_def talk_app_def eval_defs UPLOAD_PROMPT_def)

subsection \<open>Submitting\<close>




text \<open>
  The history of a call is the turn sequence of the render that created the handler; the
  provisional turn is appended to the latest state. For a handler of the current render
  the history is the turn sequence before the append.
\<close>

lemma accepted_submit_call:
  assumes "handleSendMessage_submit now date customPrompt customImage render a = (a1, Some c)"
  shows "call_history c = messages (chatState render)
         \<and> messages (chatState a1)
             = messages (chatState a) @ [displayMessage now date customPrompt customImage render]
         \<and> call_prompt c = text_msg (userMessage now date customPrompt customImage render)
         \<and> call_image c = or_undefined (imageToUse customImage render)"
  using assms by (auto simp add: handleSendMessage_submit_def split: if_splits)

lemma current_render_history:
  assumes "handleSendMessage_submit now date customPrompt customImage a a = (a1, Some c)"
  shows "call_history c = messages (chatState a)
         \<and> messages (chatState a1)
             = call_history c @ [displayMessage now date customPrompt customImage a]
         \<and> call_history c = butlast (messages (chatState a1))"
  using accepted_submit_call [OF assms] by simp

text \<open>
  Claim C1: an accepted submit passes as history exactly the turns that were there before
  it. An upload runs the handler of the render in which the file was chosen. In the
  session below a question is sent while the file is being read: the upload that follows
  is accepted, and passes the empty history although the turn of the question is there.
\<close>

theorem stale_upload_history:
  "messages (chatState (state (run a_key a_service picked_session)))
     = [\<lparr>id_msg = js ''1000'', role = User, text_msg = js ''x'',
         image_msg = None, timestamp = 1000\<rparr>]
   \<and> length (outstanding (run a_key a_service
        (picked_session @ [Upload 1001 1001 (js ''data:image/png;base64,AAAA'')]))) = 2
   \<and> call_history (last (outstanding (run a_key a_service
        (picked_session @ [Upload 1001 1001 (js ''data:image/png;base64,AAAA'')])))) = []
   \<and> map id_msg (messages (chatState (state (run a_key a_service
        (picked_session @ [Upload 1001 1001 (js ''data:image/png;base64,AAAA'')])))))
       = [js ''1000'', js ''1001'']"
  by (simp add: picked_session_def eval_defs UPLOAD_PROMPT_def)

text \<open>
  Claim C5: a submit with an image available and no text (no prompt argument, empty
  input) stores a user turn whose text is the placeholder \<open>Analyze this image.\<close>
\<close>

theorem image_only_gets_placeholder:
  assumes "\<not> truthy customPrompt" and "inputText render = []"
    and "truthy (imageToUse customImage render)" and "\<not> isLoading (chatState render)"
  shows "messages (chatState (fst (handleSendMessage_submit now date customPrompt customImage render a)))
           = messages (chatState a)
             @ [\<lparr>id_msg = toString now, role = User, text_msg = js ''Analyze this image.'',
                 image_msg = (if truthy customImage then customImage else None),
                 timestamp = date\<rparr>]"
  using assms
  by (cases customPrompt)
     (auto simp add: handleSendMessage_submit_def displayMessage_def userMessage_def
        promptToUse_def imageToUse_def or_opt_def or_undefined_def PLACEHOLDER_def trim_def)

theorem image_only_gets_placeholder_witness:
  "\<not> truthy None \<and> inputText staged_app = []
   \<and> truthy (imageToUse None staged_app) \<and> \<not> isLoading (chatState staged_app)
   \<and> messages (chatState (fst (handleSendMessage_submit 3000 3001 None None staged_app staged_app)))
       = messages (chatState staged_app)
         @ [\<lparr>id_msg = js ''3000'', role = User, text_msg = js ''Analyze this image.'',
             image_msg = None, timestamp = 3001\<rparr>]"
  using image_only_gets_placeholder [of None staged_app None 3000 3001 staged_app]
  by (simp add: staged_app_def talk_app_def imageToUse_def or_opt_def toString.simps js_def)

text \<open>
  The placeholder is chosen on the text as typed, the guard on the trimmed text: with an
  image staged, blanks are stored, and sent, as they are.
\<close>

lemma blank_text_is_kept:
  "messages (chatState (fst (handleSendMessage_submit 3000 3001 None None
      (staged_app\<lparr>inputText := js ''  ''\<rparr>) (staged_app\<lparr>inputText := js ''  ''\<rparr>))))
     = messages (chatState staged_app)
       @ [\<lparr>id_msg = js ''3000'', role = User, text_msg = js ''  '',
           image_msg = None, timestamp = 3001\<rparr>]"
  by (simp add: handleSendMessage_submit_def staged_app_def talk_app_def promptToUse_def
        imageToUse_def or_opt_def or_undefined_def userMessage_def displayMessage_def
        PLACEHOLDER_def trim_def is_space_def js_def toString.simps)

subsection \<open>Uploading\<close>

lemma upload_accepted:
  assumes "\<not> isLoading (chatState render)"
  shows "handleImageUpload_submit now date (Some base64) render a
          = (a\<lparr>chatState := (chatState a)
                 \<lparr>messages := messages (chatState a)
                     @ [(userMessage now date (Some UPLOAD_PROMPT) (Some base64) render)
                          \<lparr>text_msg := DISPLAY_TEXT\<rparr>],
                  isLoading := True, error := None\<rparr>,
               inputText := [],
               selectedImage := Some base64\<rparr>,
             Some \<lparr>call_prompt = UPLOAD_PROMPT,
                   call_history = messages (chatState render),
                   call_skillLevel = skillLevel render,
                   call_image = or_undefined (imageToUse (Some base64) render)\<rparr>)"
  using assms UPLOAD_PROMPT_not_Nil trim_UPLOAD_PROMPT
  by (simp add: handleImageUpload_submit_def handleSendMessage_submit_def userMessage_def
        displayMessage_def promptToUse_def)

text \<open>
  Claim C9: when the file picker delivers an image and its handler finds no request
  pending, the user turn appended to the conversation shows the fixed upload notice, the
  prompt sent to the client is the fixed analysis instruction, and the two texts differ.
\<close>

theorem upload_display_text_is_not_prompt:
  assumes "\<not> isLoading (chatState render)"
  shows "messages (chatState (fst (handleImageUpload_submit now date (Some base64) render a)))
           = messages (chatState a)
             @ [last (messages (chatState (fst (handleImageUpload_submit now date (Some base64) render a))))]
         \<and> text_msg (last (messages (chatState (fst (handleImageUpload_submit now date (Some base64) render a)))))
             = [0xD83D, 0xDCF7] @ js '' Image uploaded. Automated analysis in progress...''
         \<and> map_option call_prompt (snd (handleImageUpload_submit now date (Some base64) render a))
             = Some (js ''Initiate full Safety Check and Component Identification. Be concise for mobile.'')
         \<and> text_msg (last (messages (chatState (fst (handleImageUpload_submit now date (Some base64) render a)))))
             \<noteq> js ''Initiate full Safety Check and Component Identification. Be concise for mobile.''"
  using DISPLAY_TEXT_not_UPLOAD_PROMPT
  by (simp add: upload_accepted [OF assms] DISPLAY_TEXT_def UPLOAD_PROMPT_def)

theorem upload_display_text_is_not_prompt_witness:
  "\<not> isLoading (chatState talk_app)
   \<and> text_msg (last (messages (chatState (fst (handleImageUpload_submit 3000 3001
                 (Some (js ''data:image/png;base64,AAAA'')) talk_app talk_app)))))
       = [0xD83D, 0xDCF7] @ js '' Image uploaded. Automated analysis in progress...''
   \<and> map_option call_prompt (snd (handleImageUpload_submit 3000 3001
                 (Some (js ''data:image/png;base64,AAAA'')) talk_app talk_app))
       = Some (js ''Initiate full Safety Check and Component Identification. Be concise for mobile.'')"
  using upload_display_text_is_not_prompt
          [of talk_app 3000 3001 "js ''data:image/png;base64,AAAA''" talk_app]
  by (simp add: talk_app_def)

subsection \<open>Failed round trips\<close>

text \<open>
  Claim C2: when the call of an accepted submit fails, the conversation keeps the turns
  it had once the provisional user turn was appended, is no longer pending, and shows
  the message of the failure: the configuration message when the credential is missing,
  the message thrown by the service when it has one, and \<open>Engine failure.\<close> otherwise.
\<close>

theorem failed_submit_keeps_turns:
  assumes accepted: "handleSendMessage_submit now1 date1 customPrompt customImage render a = (a1, Some c)"
    and failed: "fst (generateElectronicsInsight apiKey remote
                   (call_prompt c) (call_history c) (call_skillLevel c) (call_image c)) = Inl e"
  shows "chatState (fst (handleSendMessage apiKey remote now1 date1 now2 date2
                           customPrompt customImage render a))
           = \<lparr>messages = messages (chatState a1), isLoading = False, error = Some e\<rparr>
         \<and> messages (chatState a1)
             = messages (chatState a) @ [displayMessage now1 date1 customPrompt customImage render]
         \<and> (\<not> truthy apiKey \<longrightarrow> e = js ''VITE_GEMINI_API_KEY is missing'')
         \<and> (truthy apiKey \<longrightarrow>
              (\<exists>m. remote (build_request (call_prompt c) (call_history c) (call_skillLevel c) (call_image c))
                     = Thrown m
                   \<and> e = or_else m (js ''Engine failure.'')))"
proof -
  let ?g = "generateElectronicsInsight apiKey remote
              (call_prompt c) (call_history c) (call_skillLevel c) (call_image c)"
  let ?req = "build_request (call_prompt c) (call_history c) (call_skillLevel c) (call_image c)"
  have key: "\<not> truthy apiKey \<Longrightarrow> e = js ''VITE_GEMINI_API_KEY is missing''"
    using failed by (simp add: generateElectronicsInsight_def)
  have thrown: "truthy apiKey \<Longrightarrow> \<exists>m. remote ?req = Thrown m \<and> e = or_else m (js ''Engine failure.'')"
    using failed by (cases "remote ?req") (simp_all add: generateElectronicsInsight_def Let_def)
  have "e \<noteq> []"
  proof (cases "truthy apiKey")
    case True
    then obtain m where "e = or_else m (js ''Engine failure.'')"
      using thrown by blast
    then show ?thesis
      by (simp add: or_else_not_Nil js_def)
  next
    case False
    then show ?thesis
      using key by (simp add: js_def)
  qed
  then have caught: "or_else (Some e) (js ''Engine failure.'') = e"
    by simp
  have a1: "a1 = a\<lparr>chatState := (chatState a)
                \<lparr>messages := messages (chatState a)
                               @ [displayMessage now1 date1 customPrompt customImage render],
                 isLoading := True,
                 error := None\<rparr>,
             inputText := []\<rparr>"
    using accepted by (auto simp add: handleSendMessage_submit_def split: if_splits)
  have "fst (handleSendMessage apiKey remote now1 date1 now2 date2 customPrompt customImage render a)
          = handleSendMessage_settle now2 date2 (Inl e) a1"
    using accepted failed by (cases ?g) (simp add: handleSendMessage_def)
  then have "chatState (fst (handleSendMessage apiKey remote now1 date1 now2 date2
                               customPrompt customImage render a))
           = \<lparr>messages = messages (chatState a1), isLoading = False, error = Some e\<rparr>"
    using caught by (simp add: handleSendMessage_settle_def a1)
  then show ?thesis
    using key thrown a1 by simp
qed

lemma talk_submit:
  "handleSendMessage_submit 3000 3001 None None talk_app talk_app =
     (talk_app\<lparr>chatState :=
         \<lparr>messages = messages (chatState talk_app)
                      @ [\<lparr>id_msg = js ''3000'', role = User, text_msg = js ''more'',
                          image_msg = None, timestamp = 3001\<rparr>],
          isLoading = True, error = None\<rparr>,
        inputText := []\<rparr>,
      Some \<lparr>call_prompt = js ''more'',
            call_history = messages (chatState talk_app),
            call_skillLevel = INTERMEDIATE,
            call_image = None\<rparr>)"
  by (simp add: handleSendMessage_submit_def talk_app_def promptToUse_def imageToUse_def
        or_opt_def or_undefined_def userMessage_def displayMessage_def PLACEHOLDER_def
        trim_def is_space_def js_def toString.simps)

lemma talk_call_rate_limited:
  "fst (generateElectronicsInsight (Some (js ''k'')) (\<lambda>r. Thrown (Some (js ''rate limited'')))
          (call_prompt \<lparr>call_prompt = js ''more'', call_history = messages (chatState talk_app),
                        call_skillLevel = INTERMEDIATE, call_image = None\<rparr>)
          (call_history \<lparr>call_prompt = js ''more'', call_history = messages (chatState talk_app),
                        call_skillLevel = INTERMEDIATE, call_image = None\<rparr>)
          (call_skillLevel \<lparr>call_prompt = js ''more'', call_history = messages (chatState talk_app),
                        call_skillLevel = INTERMEDIATE, call_image = None\<rparr>)
          (call_image \<lparr>call_prompt = js ''more'', call_history = messages (chatState talk_app),
                        call_skillLevel = INTERMEDIATE, call_image = None\<rparr>))
     = Inl (js ''rate limited'')"
  by (simp add: generateElectronicsInsight_def js_def)

lemma talk_call_no_message:
  "fst (generateElectronicsInsight (Some (js ''k'')) (\<lambda>r. Thrown None)
          (call_prompt \<lparr>call_prompt = js ''more'', call_history = messages (chatState talk_app),
                        call_skillLevel = INTERMEDIATE, call_image = None\<rparr>)
          (call_history \<lparr>call_prompt = js ''more'', call_history = messages (chatState talk_app),
                        call_skillLevel = INTERMEDIATE, call_image = None\<rparr>)
          (call_skillLevel \<lparr>call_prompt = js ''more'', call_history = messages (chatState talk_app),
                        call_skillLevel = INTERMEDIATE, call_image = None\<rparr>)
          (call_image \<lparr>call_prompt = js ''more'', call_history = messages (chatState talk_app),
                        call_skillLevel = INTERMEDIATE, call_image = None\<rparr>))
     = Inl (js ''Engine failure.'')"
  by (simp add: generateElectronicsInsight_def js_def)

lemma talk_call_no_key:
  "fst (generateElectronicsInsight None (\<lambda>r. Response (Some (js ''unused'')))
          (call_prompt \<lparr>call_prompt = js ''more'', call_history = messages (chatState talk_app),
                        call_skillLevel = INTERMEDIATE, call_image = None\<rparr>)
          (call_history \<lparr>call_prompt = js ''more'', call_history = messages (chatState talk_app),
                        call_skillLevel = INTERMEDIATE, call_image = None\<rparr>)
          (call_skillLevel \<lparr>call_prompt = js ''more'', call_history = messages (chatState talk_app),
                        call_skillLevel = INTERMEDIATE, call_image = None\<rparr>)
          (call_image \<lparr>call_prompt = js ''more'', call_history = messages (chatState talk_app),
                        call_skillLevel = INTERMEDIATE, call_image = None\<rparr>))
     = Inl (js ''VITE_GEMINI_API_KEY is missing'')"
  by (simp add: generateElectronicsInsight_def)

theorem failed_submit_keeps_turns_witness:
  "chatState (fst (handleSendMessage (Some (js ''k'')) (\<lambda>r. Thrown (Some (js ''rate limited'')))
                     3000 3001 3900 3901 None None talk_app talk_app))
     = \<lparr>messages = messages (chatState talk_app)
                    @ [\<lparr>id_msg = js ''3000'', role = User, text_msg = js ''more'',
                        image_msg = None, timestamp = 3001\<rparr>],
        isLoading = False, error = Some (js ''rate limited'')\<rparr>
   \<and> chatState (fst (handleSendMessage (Some (js ''k'')) (\<lambda>r. Thrown None)
                     3000 3001 3900 3901 None None talk_app talk_app))
     = \<lparr>messages = messages (chatState talk_app)
                    @ [\<lparr>id_msg = js ''3000'', role = User, text_msg = js ''more'',
                        image_msg = None, timestamp = 3001\<rparr>],
        isLoading = False, error = Some (js ''Engine failure.'')\<rparr>
   \<and> chatState (fst (handleSendMessage None (\<lambda>r. Response (Some (js ''unused'')))
                     3000 3001 3900 3901 None None talk_app talk_app))
     = \<lparr>messages = messages (chatState talk_app)
                    @ [\<lparr>id_msg = js ''3000'', role = User, text_msg = js ''more'',
                        image_msg = None, timestamp = 3001\<rparr>],
        isLoading = False, error = Some (js ''VITE_GEMINI_API_KEY is missing'')\<rparr>"
  using failed_submit_keeps_turns [OF talk_submit talk_call_rate_limited, of 3900 3901]
        failed_submit_keeps_turns [OF talk_submit talk_call_no_message, of 3900 3901]
        failed_submit_keeps_turns [OF talk_submit talk_call_no_key, of 3900 3901]
  by simp

subsection \<open>The staged image\<close>

lemma state_issue: "state (issue w r) = fst r"
  by (cases r; cases "snd r") auto

lemma submit_keeps_selectedImage:
  "selectedImage (fst (handleSendMessage_submit now date customPrompt customImage render a))
     = selectedImage a"
  by (simp add: handleSendMessage_submit_def)

lemma settle_keeps_selectedImage:
  "selectedImage (handleSendMessage_settle now date result a) = selectedImage a"
  by (cases result) (simp_all add: handleSendMessage_settle_def)

lemma round_trip_keeps_selectedImage:
  "selectedImage (fst (handleSendMessage apiKey remote now1 date1 now2 date2
                         customPrompt customImage render a))
     = selectedImage a"
proof (cases "handleSendMessage_submit now1 date1 customPrompt customImage render a")
  case (Pair a1 oc)
  then have "selectedImage a1 = selectedImage a"
    using submit_keeps_selectedImage [of now1 date1 customPrompt customImage render a] by simp
  with Pair show ?thesis
    by (cases oc) (simp_all add: handleSendMessage_def settle_keeps_selectedImage split: prod.splits)
qed

lemma step_selectedImage:
  "selectedImage (state (step apiKey remote w ev))
     = (case ev of
          Reset \<Rightarrow> None
        | Upload now date base64 \<Rightarrow> Some base64
        | _ \<Rightarrow> selectedImage (state w))"
proof (cases ev)
  case (Upload now date base64)
  then show ?thesis
    by (simp add: state_issue handleImageUpload_submit_def submit_keeps_selectedImage
          split: list.splits)
next
  case (Settle now date k)
  then show ?thesis
    by (simp add: settle_keeps_selectedImage split: option.splits)
qed (simp_all add: state_issue submit_keeps_selectedImage resetChat_def)

lemma staged_submit_accepted:
  assumes "\<not> truthy customImage" and "selectedImage render = Some i" and "i \<noteq> []"
    and "\<not> isLoading (chatState render)"
  shows "handleSendMessage_submit now date customPrompt customImage render a
           = (a\<lparr>chatState := (chatState a)
                  \<lparr>messages := messages (chatState a)
                      @ [(displayMessage now date customPrompt customImage render)],
                   isLoading := True, error := None\<rparr>,
                inputText := []\<rparr>,
              Some \<lparr>call_prompt = text_msg (userMessage now date customPrompt customImage render),
                    call_history = messages (chatState render),
                    call_skillLevel = skillLevel render,
                    call_image = Some i\<rparr>)"
  using assms
  by (simp add: handleSendMessage_submit_def imageToUse_def or_opt_def or_undefined_def)

lemma staged_display_has_no_image:
  assumes "\<not> truthy customImage"
  shows "image_msg (displayMessage now date customPrompt customImage a) = None"
  using assms by (simp add: displayMessage_def userMessage_def)

text \<open>
  Claim C10: the staged image is changed by no event but a reset (which clears it) and
  an upload (which replaces it): a round trip, settled either way, leaves it as it was.
  So an accepted submit without an image argument sends the staged image again, in the
  call and in the new turn of the request, while the stored user turn carries no image.
\<close>

theorem staged_image_is_reattached:
  "selectedImage (state (step apiKey remote w ev))
     = (case ev of
          Reset \<Rightarrow> None
        | Upload n d base64 \<Rightarrow> Some base64
        | _ \<Rightarrow> selectedImage (state w))
   \<and> selectedImage (fst (handleSendMessage apiKey remote now1 date1 now2 date2
                           customPrompt customImage render a))
       = selectedImage a
   \<and> (\<not> truthy customImage \<and> selectedImage render = Some i \<and> i \<noteq> []
        \<and> \<not> isLoading (chatState render) \<longrightarrow>
        map_option call_image (snd (handleSendMessage_submit now1 date1 customPrompt customImage render a))
          = Some (Some i)
        \<and> image_msg (last (messages (chatState
             (fst (handleSendMessage_submit now1 date1 customPrompt customImage render a))))) = None
        \<and> (truthy apiKey \<longrightarrow>
             map (\<lambda>req. parts (last (contents req)))
               (snd (handleSendMessage apiKey remote now1 date1 now2 date2
                       customPrompt customImage render a))
             = [InlineData (js ''image/jpeg'') (inline_data i),
                Text (text_msg (userMessage now1 date1 customPrompt customImage render))] # []))"
proof -
  have reattach:
    "map (\<lambda>req. parts (last (contents req)))
       (snd (handleSendMessage apiKey remote now1 date1 now2 date2 customPrompt customImage render a))
     = [InlineData (js ''image/jpeg'') (inline_data i),
        Text (text_msg (userMessage now1 date1 customPrompt customImage render))] # []"
    if h: "\<not> truthy customImage" "selectedImage render = Some i" "i \<noteq> []"
          "\<not> isLoading (chatState render)"
      and k: "truthy apiKey"
  proof -
    let ?p = "text_msg (userMessage now1 date1 customPrompt customImage render)"
    let ?req = "build_request ?p (messages (chatState render)) (skillLevel render) (Some i)"
    have "snd (generateElectronicsInsight apiKey remote ?p (messages (chatState render))
                 (skillLevel render) (Some i))
            = [?req]"
      using k by (cases "remote ?req") (simp_all add: generateElectronicsInsight_def Let_def)
    then have "snd (handleSendMessage apiKey remote now1 date1 now2 date2
                      customPrompt customImage render a)
            = [?req]"
      by (simp add: handleSendMessage_def staged_submit_accepted [OF h] case_prod_beta)
    then show ?thesis
      using h(3) by (simp add: build_request_def currentParts_def)
  qed
  show ?thesis
    using reattach
    by (auto simp add: step_selectedImage round_trip_keeps_selectedImage
          staged_submit_accepted staged_display_has_no_image)
qed

theorem staged_image_is_reattached_witness:
  "selectedImage (state (step (Some (js ''k'')) (\<lambda>r. Response None)
                    \<lparr>state = staged_app, outstanding = [], picked = []\<rparr> (Send 3000 3001 None None)))
     = Some (js ''data:image/png;base64,AAAA'')
   \<and> selectedImage (state (step (Some (js ''k'')) (\<lambda>r. Response None)
                    \<lparr>state = staged_app, outstanding = [], picked = []\<rparr> Reset)) = None
   \<and> \<not> truthy None \<and> selectedImage staged_app = Some (js ''data:image/png;base64,AAAA'')
   \<and> js ''data:image/png;base64,AAAA'' \<noteq> [] \<and> \<not> isLoading (chatState staged_app)
   \<and> truthy (Some (js ''k''))
   \<and> map_option call_image (snd (handleSendMessage_submit 3000 3001 None None
                                     staged_app staged_app))
       = Some (Some (js ''data:image/png;base64,AAAA''))
   \<and> image_msg (last (messages (chatState
        (fst (handleSendMessage_submit 3000 3001 None None staged_app staged_app))))) = None
   \<and> map (\<lambda>req. parts (last (contents req)))
        (snd (handleSendMessage (Some (js ''k'')) (\<lambda>r. Response None) 3000 3001 3900 3901 None None
               staged_app staged_app))
       = [InlineData (js ''image/jpeg'') (js ''AAAA''), Text (js ''Analyze this image.'')] # []"
proof -
  have staged: "selectedImage staged_app = Some (js ''data:image/png;base64,AAAA'')"
    "\<not> isLoading (chatState staged_app)" "inputText staged_app = []"
    by (simp_all add: staged_app_def talk_app_def)
  have ne: "js ''data:image/png;base64,AAAA'' \<noteq> []" "js ''k'' \<noteq> []"
    by (simp_all add: js_def)
  have payload: "inline_data (js ''data:image/png;base64,AAAA'') = js ''AAAA''"
    by (simp add: inline_data_def js_def)
  have prompt: "text_msg (userMessage 3000 3001 None None staged_app) = js ''Analyze this image.''"
    by (simp add: userMessage_def promptToUse_def staged PLACEHOLDER_def)
  show ?thesis
    using staged ne
      staged_image_is_reattached [of "Some (js ''k'')" "\<lambda>r. Response None"
        "\<lparr>state = staged_app, outstanding = [], picked = []\<rparr>" "Send 3000 3001 None None"
        3000 3001 3900 3901 None None staged_app staged_app "js ''data:image/png;base64,AAAA''"]
      staged_image_is_reattached [of "Some (js ''k'')" "\<lambda>r. Response None"
        "\<lparr>state = staged_app, outstanding = [], picked = []\<rparr>" Reset
        3000 3001 3900 3901 None None staged_app staged_app "js ''data:image/png;base64,AAAA''"]
    by (simp add: payload prompt)
qed

subsection \<open>Turn identifiers\<close>

lemma fromDigits_snoc: "fromDigits (s @ [d]) = 10 * fromDigits s + (unat d - 48)"
  by (simp add: fromDigits_def)

lemma unat_digit:
  assumes "n < 10"
  shows "unat (of_nat (48 + n) :: 16 word) - 48 = n"
proof -
  have "unat (of_nat (48 + n) :: 16 word) = (48 + n) mod 2 ^ LENGTH(16)"
    by (simp only: unat_of_nat)
  also have "\<dots> = 48 + n"
    using assms by simp
  finally show ?thesis
    by simp
qed

lemma fromDigits_toString: "fromDigits (toString n) = n"
proof (induction n rule: toString.induct)
  case (1 n)
  show ?case
  proof (cases "n < 10")
    case True
    then show ?thesis
      using unat_digit [of n] by (simp add: toString.simps [of n] fromDigits_def)
  next
    case False
    have "n mod 10 < 10" by simp
    then have "unat (of_nat (48 + n mod 10) :: 16 word) - 48 = n mod 10"
      by (rule unat_digit)
    then show ?thesis
      using False "1.IH" by (simp add: toString.simps [of n] fromDigits_snoc)
  qed
qed

lemma ids_below_mono: "ids_below b ms \<Longrightarrow> b \<le> b' \<Longrightarrow> ids_below b' ms"
  by (auto simp add: ids_below_def list_all_iff)

lemma ids_below_snoc:
  assumes "ids_below b ms" and "b \<le> n" and "id_msg m = toString n"
  shows "ids_below (Suc n) (ms @ [m])"
  using assms
  by (auto simp add: ids_below_def list_all_iff sorted_wrt_append fromDigits_toString)

lemma ids_below_Nil: "ids_below b []"
  by (simp add: ids_below_def)

lemma ids_below_distinct:
  assumes "ids_below b ms"
  shows "distinct (map id_msg ms)"
proof -
  have "distinct (map fromDigits (map id_msg ms))"
    using assms strict_sorted_iff [of "map (fromDigits \<circ> id_msg) ms"]
    by (simp add: ids_below_def)
  then show ?thesis
    by (auto simp add: distinct_map dest: inj_on_imageI2)
qed

lemma submit_ids_below:
  assumes "ids_below b (messages (chatState a))" and "b \<le> now"
  shows "ids_below (now + 2)
           (messages (chatState (fst (handleSendMessage_submit now date customPrompt customImage
                                        render a))))"
proof -
  have "id_msg (displayMessage now date customPrompt customImage render) = toString now"
    by (simp add: displayMessage_def userMessage_def)
  then have "ids_below (Suc now)
               (messages (chatState a) @ [displayMessage now date customPrompt customImage render])"
    using assms ids_below_snoc by blast
  then show ?thesis
    using assms ids_below_mono [of b "messages (chatState a)" "now + 2"]
      ids_below_mono [of "Suc now" _ "now + 2"]
    by (simp add: handleSendMessage_submit_def)
qed

lemma settle_ids_below:
  assumes "ids_below b (messages (chatState a))" and "b \<le> now"
  shows "ids_below (now + 2) (messages (chatState (handleSendMessage_settle now date result a)))"
proof (cases result)
  case (Inl message)
  then show ?thesis
    using assms ids_below_mono [of b "messages (chatState a)" "now + 2"]
    by (simp add: handleSendMessage_settle_def)
next
  case (Inr aiResponse)
  have "ids_below (Suc (now + 1))
          (messages (chatState a)
           @ [\<lparr>id_msg = toString (now + 1), role = Model, text_msg = aiResponse,
               image_msg = None, timestamp = date\<rparr>])"
    using assms by (intro ids_below_snoc [where b = b]) simp_all
  then show ?thesis
    using Inr by (simp add: handleSendMessage_settle_def)
qed

lemma step_ids_below:
  assumes "ids_below b (messages (chatState (state w)))"
    and "list_all (\<lambda>t. b \<le> t) (reading ev)"
  shows "ids_below (foldr (\<lambda>t _. t + 2) (reading ev) b)
           (messages (chatState (state (step apiKey remote w ev))))"
proof (cases ev)
  case (Send now date customPrompt customImage)
  then show ?thesis
    using assms submit_ids_below [of b "state w" now date customPrompt customImage "state w"]
    by (simp add: state_issue)
next
  case Pick
  then show ?thesis
    using assms by simp
next
  case (Upload now date base64)
  have "ids_below (now + 2)
          (messages (chatState (fst (handleImageUpload_submit now date (Some base64) render
                                       (state w)))))" for render
    using assms Upload
      submit_ids_below [of b "(state w)\<lparr>selectedImage := Some base64\<rparr>" now date
        "Some UPLOAD_PROMPT" "Some base64" render]
    by (simp add: handleImageUpload_submit_def)
  then show ?thesis
    using Upload by (simp add: state_issue split: list.splits)
next
  case (Settle now date k)
  then show ?thesis
    using assms settle_ids_below [of b "state w" now]
      ids_below_mono [of b "messages (chatState (state w))" "now + 2"]
    by (simp split: option.splits)
next
  case Reset
  then show ?thesis
    by (simp add: resetChat_def ids_below_Nil)
next
  case (Type t)
  then show ?thesis
    using assms by simp
next
  case (Skill l)
  then show ?thesis
    using assms by simp
qed

lemma foldl_ids_below:
  assumes "ids_below b (messages (chatState (state w)))"
    and "sorted_wrt (\<lambda>s t. s + 2 \<le> t) (concat (map reading evs))"
    and "list_all (\<lambda>t. b \<le> t) (concat (map reading evs))"
  shows "\<exists>b'. ids_below b' (messages (chatState (state (foldl (step apiKey remote) w evs))))"
  using assms
proof (induction evs arbitrary: w b)
  case Nil
  then show ?case by auto
next
  case (Cons ev evs)
  let ?b = "foldr (\<lambda>t _. t + 2) (reading ev) b"
  have here: "list_all (\<lambda>t. b \<le> t) (reading ev)"
    using Cons.prems(3) by simp
  have one: "ids_below ?b (messages (chatState (state (step apiKey remote w ev))))"
    using step_ids_below [OF Cons.prems(1) here] .
  have rest: "sorted_wrt (\<lambda>s t. s + 2 \<le> t) (concat (map reading evs))"
    using Cons.prems(2) by (simp add: sorted_wrt_append)
  have later: "list_all (\<lambda>t. ?b \<le> t) (concat (map reading evs))"
    using Cons.prems(2,3) by (cases ev) (auto simp add: sorted_wrt_append list_all_iff)
  show ?case
    using Cons.IH [OF one rest later] by simp
qed

text \<open>
  When every reading of the clock is at least two milliseconds later than the one before
  it, the identifiers increase strictly in the order of appending, and are distinct.
\<close>

lemma turn_ids_increase_when_clock_advances:
  assumes "sorted_wrt (\<lambda>s t. s + 2 \<le> t) (concat (map reading evs))"
  shows "sorted_wrt (<) (map (fromDigits \<circ> id_msg)
           (messages (chatState (state (run apiKey remote evs)))))
         \<and> distinct (map id_msg (messages (chatState (state (run apiKey remote evs)))))"
proof -
  have "ids_below 0 (messages (chatState (state start)))"
    by (simp add: start_def initial_def ids_below_Nil)
  moreover have "list_all (\<lambda>t. 0 \<le> t) (concat (map reading evs))"
    by (simp add: list_all_iff)
  ultimately obtain b where
    "ids_below b (messages (chatState (state (run apiKey remote evs))))"
    using foldl_ids_below [OF _ assms] unfolding run_def by blast
  then show ?thesis
    using ids_below_distinct by (auto simp add: ids_below_def)
qed

text \<open>
  Claim C6: all turns have pairwise distinct identifiers, assigned in increasing order.
  The identifiers are clock readings, the model turn's advanced by one. A submit one
  millisecond after a reply settled gets the identifier of that reply: the session below
  ends with two turns of identifier \<open>1851\<close>.
\<close>

theorem turn_ids_collide:
  "map id_msg (messages (chatState (state
     (run (Some (js ''k'')) (\<lambda>r. Response (Some (js ''Check fuse F1.'')))
        [Type (js ''hi''), Send 1000 1000 None None, Settle 1850 1850 0,
         Type (js ''more''), Send 1851 1851 None None]))))
   = [js ''1000'', js ''1851'', js ''1851'']
   \<and> \<not> distinct (map id_msg (messages (chatState (state
     (run (Some (js ''k'')) (\<lambda>r. Response (Some (js ''Check fuse F1.'')))
        [Type (js ''hi''), Send 1000 1000 None None, Settle 1850 1850 0,
         Type (js ''more''), Send 1851 1851 None None])))))"
  by (simp add: eval_defs)

end
